theory Spec2Isabelle
  imports Complex_Main
begin

section \<open>JavaScript values and objects\<close>

text \<open>
  The values that travel through the client. Numbers are never computed with (amounts are
  copied from the caller's record into the request), so a number is an opaque \<open>real\<close>.
  A property that is present with the value \<open>undefined\<close> is \<open>Some JUndefined\<close>; a
  property that is absent is \<open>None\<close>.
\<close>

datatype jsval =
    JUndefined
  | JNull
  | JBool bool
  | JNum real
  | JStr string
  | JArr "jsval list"
  | JObj "(string \<times> jsval) list"

type_synonym jsobject = "string \<rightharpoonup> jsval"

text \<open>
  The object literal \<open>{ k1: v1, ..., ...src }\<close>: the spread copies every own property of
  \<open>src\<close> over the properties written before it, so a key of \<open>src\<close> wins and a key that
  \<open>src\<close> lacks keeps the earlier value. The order of the keys is not modelled.
\<close>

definition spread :: "jsobject \<Rightarrow> jsobject \<Rightarrow> jsobject" where
  "spread literal src = literal ++ src"

section \<open>Exported constants of PayriffSDK.ts\<close>

datatype Operation = PURCHASE | PRE_AUTH
datatype Language = AZ | EN | RU
datatype Currency = AZN | USD | EUR

fun Operation_value :: "Operation \<Rightarrow> string" where
  "Operation_value PURCHASE = ''PURCHASE''"
| "Operation_value PRE_AUTH = ''PRE_AUTH''"

fun Language_value :: "Language \<Rightarrow> string" where
  "Language_value AZ = ''AZ''"
| "Language_value EN = ''EN''"
| "Language_value RU = ''RU''"

fun Currency_value :: "Currency \<Rightarrow> string" where
  "Currency_value AZN = ''AZN''"
| "Currency_value USD = ''USD''"
| "Currency_value EUR = ''EUR''"

datatype ResultCode =
    SUCCESS
  | SUCCESS_GATEWAY
  | SUCCESS_GATEWAY_APPROVE
  | SUCCESS_GATEWAY_PREAUTH_APPROVE
  | WARNING
  | ERROR
  | INVALID_PARAMETERS
  | UNAUTHORIZED
  | TOKEN_NOT_PRESENT
  | INVALID_TOKEN

fun ResultCodes :: "ResultCode \<Rightarrow> string" where
  "ResultCodes SUCCESS = ''00000''"
| "ResultCodes SUCCESS_GATEWAY = ''00''"
| "ResultCodes SUCCESS_GATEWAY_APPROVE = ''APPROVED''"
| "ResultCodes SUCCESS_GATEWAY_PREAUTH_APPROVE = ''PREAUTH-APPROVED''"
| "ResultCodes WARNING = ''01000''"
| "ResultCodes ERROR = ''15000''"
| "ResultCodes INVALID_PARAMETERS = ''15400''"
| "ResultCodes UNAUTHORIZED = ''14010''"
| "ResultCodes TOKEN_NOT_PRESENT = ''14013''"
| "ResultCodes INVALID_TOKEN = ''14014''"

section \<open>Configuration and construction\<close>

text \<open>
  \<open>PayriffConfig\<close>: every field is optional. The constructor only reads the fields
  (\<open>config.baseUrl\<close>), and a read gives \<open>undefined\<close> for an absent field as for a field
  set to \<open>undefined\<close>: both are \<open>None\<close>.
\<close>

record PayriffConfig =
  cfg_baseUrl :: "string option"
  cfg_secretKey :: "string option"
  cfg_defaultLanguage :: "Language option"
  cfg_defaultCurrency :: "Currency option"
  cfg_defaultCallbackUrl :: "string option"

text \<open>
  The two variables of \<open>process.env\<close> that the static initialisers of the class read,
  once, when the module is loaded; \<open>None\<close> is an unset variable. The runtime is one that
  has \<open>process.env\<close>.
\<close>

record process_env =
  PAYRIFF_SECRET_KEY :: "string option"
  PAYRIFF_CALLBACK_URL :: "string option"

text \<open>
  \<open>a || b\<close> on an optional string: \<open>undefined\<close> and the empty string are falsy and give
  \<open>b\<close>, every other string is truthy and is the result.
\<close>

definition or_string :: "string option \<Rightarrow> string \<Rightarrow> string" where
  "or_string a b = (case a of None \<Rightarrow> b | Some s \<Rightarrow> if s = [] then b else s)"

text \<open>
  \<open>a || b\<close> on an optional member of a string-literal union; \<open>str\<close> gives the string that
  the member is at run time.
\<close>

definition or_literal :: "('a \<Rightarrow> string) \<Rightarrow> 'a option \<Rightarrow> 'a \<Rightarrow> 'a" where
  "or_literal str a b = (case a of None \<Rightarrow> b | Some x \<Rightarrow> if str x = [] then b else x)"

definition DEFAULT_BASE_URL :: string where
  "DEFAULT_BASE_URL = ''https://api.payriff.com/api/v3''"

definition DEFAULT_SECRET_KEY :: "process_env \<Rightarrow> string" where
  "DEFAULT_SECRET_KEY env = or_string (PAYRIFF_SECRET_KEY env) []"

definition DEFAULT_LANGUAGE :: Language where
  "DEFAULT_LANGUAGE = AZ"

definition DEFAULT_CURRENCY :: Currency where
  "DEFAULT_CURRENCY = AZN"

definition DEFAULT_CALLBACK_URL :: "process_env \<Rightarrow> string" where
  "DEFAULT_CALLBACK_URL env = or_string (PAYRIFF_CALLBACK_URL env) []"

text \<open>The private fields of a \<open>PayriffSDK\<close> instance.\<close>

record PayriffSDK =
  baseUrl :: string
  headers :: "(string \<times> string) list"
  secretKey :: string
  defaultLanguage :: Language
  defaultCurrency :: Currency
  defaultCallbackUrl :: string

definition constructor :: "process_env \<Rightarrow> PayriffConfig \<Rightarrow> PayriffSDK" where
  "constructor env config =
    (let base = or_string (cfg_baseUrl config) DEFAULT_BASE_URL;
         key = or_string (cfg_secretKey config) (DEFAULT_SECRET_KEY env);
         lang = or_literal Language_value (cfg_defaultLanguage config) DEFAULT_LANGUAGE;
         cur = or_literal Currency_value (cfg_defaultCurrency config) DEFAULT_CURRENCY;
         cb = or_string (cfg_defaultCallbackUrl config) (DEFAULT_CALLBACK_URL env)
     in \<lparr> baseUrl = base,
          headers = [(''Authorization'', key), (''Content-Type'', ''application/json'')],
          secretKey = key,
          defaultLanguage = lang,
          defaultCurrency = cur,
          defaultCallbackUrl = cb \<rparr>)"

section \<open>The host runtime\<close>

datatype http_method = GET | POST

text \<open>What \<open>fetch(url, init)\<close> is called with; \<open>req_body = None\<close> is an init without a body.\<close>

record http_request =
  req_url :: string
  req_method :: http_method
  req_headers :: "(string \<times> string) list"
  req_body :: "string option"

record http_response =
  resp_status :: nat
  resp_body :: string

text \<open>The promise that \<open>fetch\<close> returns is fulfilled with a response or rejected.\<close>

datatype fetch_outcome = Fulfilled http_response | Failed string

text \<open>
  The functions of the host that the client calls and that are no part of this repository:
  \<open>fetch\<close>, \<open>JSON.stringify\<close> and the parser behind \<open>response.json()\<close>, which gives
  \<open>None\<close> for a body that is not valid JSON. They are parameters of the model.
\<close>

record host =
  fetch :: "http_request \<Rightarrow> fetch_outcome"
  JSON_stringify :: "jsobject \<Rightarrow> string"
  json :: "string \<Rightarrow> jsval option"

section \<open>The store\<close>

text \<open>
  Request records are objects that the caller owns and passes by reference. The store
  holds the objects, the client instance, and the calls made to \<open>fetch\<close> so far, oldest
  first. Addresses below \<open>next_addr\<close> are allocated.
\<close>

type_synonym addr = nat

record state =
  this :: PayriffSDK
  heap :: "addr \<Rightarrow> jsobject"
  next_addr :: addr
  sent :: "http_request list"

definition new_object :: "jsobject \<Rightarrow> state \<Rightarrow> addr \<times> state" where
  "new_object obj s =
    (next_addr s, s\<lparr> heap := (heap s)(next_addr s := obj), next_addr := Suc (next_addr s) \<rparr>)"

section \<open>The operations\<close>

datatype failure = TransportFailure string | SyntaxError

text \<open>How the promise returned by an operation settles.\<close>

datatype promise = Resolved jsval | Rejected failure

text \<open>
  \<open>makeRequest\<close>: \<open>body\<close> is \<open>None\<close> when the argument is left out and a reference to an
  object otherwise; an object is truthy, so the init has a body exactly then.
\<close>

definition makeRequest ::
  "host \<Rightarrow> string \<Rightarrow> http_method \<Rightarrow> addr option \<Rightarrow> state \<Rightarrow> promise \<times> state" where
  "makeRequest h endpoint method body s =
    (let init = \<lparr> req_url = baseUrl (this s) @ endpoint,
                  req_method = method,
                  req_headers = headers (this s),
                  req_body = (case body of
                                None \<Rightarrow> None
                              | Some b \<Rightarrow> Some (JSON_stringify h (heap s b))) \<rparr>;
         s' = s\<lparr> sent := sent s @ [init] \<rparr>
     in case fetch h init of
          Failed e \<Rightarrow> (Rejected (TransportFailure e), s')
        | Fulfilled response \<Rightarrow>
            (case json h (resp_body response) of
               None \<Rightarrow> (Rejected SyntaxError, s')
             | Some envelope \<Rightarrow> (Resolved envelope, s')))"

definition createOrder :: "host \<Rightarrow> addr \<Rightarrow> state \<Rightarrow> promise \<times> state" where
  "createOrder h request s =
    (let (defaultedRequest, s1) =
           new_object
             (spread
                [''language'' \<mapsto> JStr (Language_value (defaultLanguage (this s))),
                 ''currency'' \<mapsto> JStr (Currency_value (defaultCurrency (this s))),
                 ''callbackUrl'' \<mapsto> JStr (defaultCallbackUrl (this s)),
                 ''cardSave'' \<mapsto> JBool False,
                 ''operation'' \<mapsto> JStr ''PURCHASE'']
                (heap s request))
             s
     in makeRequest h ''/orders'' POST (Some defaultedRequest) s1)"

definition getOrderInfo :: "host \<Rightarrow> string \<Rightarrow> state \<Rightarrow> promise \<times> state" where
  "getOrderInfo h orderId s = makeRequest h (''/orders/'' @ orderId) GET None s"

definition refund :: "host \<Rightarrow> addr \<Rightarrow> state \<Rightarrow> promise \<times> state" where
  "refund h request s = makeRequest h ''/refund'' POST (Some request) s"

definition complete :: "host \<Rightarrow> addr \<Rightarrow> state \<Rightarrow> promise \<times> state" where
  "complete h request s = makeRequest h ''/complete'' POST (Some request) s"

definition autoPay :: "host \<Rightarrow> addr \<Rightarrow> state \<Rightarrow> promise \<times> state" where
  "autoPay h request s =
    (let (defaultedRequest, s1) =
           new_object
             (spread
                [''currency'' \<mapsto> JStr (Currency_value (defaultCurrency (this s))),
                 ''callbackUrl'' \<mapsto> JStr (defaultCallbackUrl (this s)),
                 ''operation'' \<mapsto> JStr ''PURCHASE'']
                (heap s request))
             s
     in makeRequest h ''/autoPay'' POST (Some defaultedRequest) s1)"

definition isSuccessful :: "string \<Rightarrow> bool" where
  "isSuccessful code \<longleftrightarrow> code = ''00000'' \<or> code = ''00''"

text \<open>A call of one of the six public methods, and what it gives back.\<close>

datatype call =
    CreateOrder addr
  | GetOrderInfo string
  | Refund addr
  | Complete addr
  | AutoPay addr
  | IsSuccessful string

datatype outcome = Settled promise | Returned bool

fun invoke :: "host \<Rightarrow> call \<Rightarrow> state \<Rightarrow> outcome \<times> state" where
  "invoke h (CreateOrder request) s = (let (p, s') = createOrder h request s in (Settled p, s'))"
| "invoke h (GetOrderInfo orderId) s = (let (p, s') = getOrderInfo h orderId s in (Settled p, s'))"
| "invoke h (Refund request) s = (let (p, s') = refund h request s in (Settled p, s'))"
| "invoke h (Complete request) s = (let (p, s') = complete h request s in (Settled p, s'))"
| "invoke h (AutoPay request) s = (let (p, s') = autoPay h request s in (Settled p, s'))"
| "invoke h (IsSuccessful code) s = (Returned (isSuccessful code), s)"

section \<open>Concrete inputs\<close>

text \<open>
  An environment without a secret key, a configuration that gives the key \<open>S\<close>, the
  configuration \<open>{}\<close>, and a host whose server answers every POST with status 500 and
  the body \<open>{}\<close> and every GET with status 404 and a body that is not JSON.
\<close>

definition example_env :: process_env where
  "example_env =
     \<lparr> PAYRIFF_SECRET_KEY = None, PAYRIFF_CALLBACK_URL = Some ''https://example.com/webhook'' \<rparr>"

definition example_config :: PayriffConfig where
  "example_config =
     \<lparr> cfg_baseUrl = None, cfg_secretKey = Some ''S'', cfg_defaultLanguage = None,
       cfg_defaultCurrency = None, cfg_defaultCallbackUrl = None \<rparr>"

definition empty_config :: PayriffConfig where
  "empty_config =
     \<lparr> cfg_baseUrl = None, cfg_secretKey = None, cfg_defaultLanguage = None,
       cfg_defaultCurrency = None, cfg_defaultCallbackUrl = None \<rparr>"

definition example_host :: host where
  "example_host =
     \<lparr> fetch = (\<lambda>q. if req_method q = GET
                      then Fulfilled \<lparr> resp_status = 404, resp_body = ''Not Found'' \<rparr>
                      else Fulfilled \<lparr> resp_status = 500, resp_body = ''{}'' \<rparr>),
       JSON_stringify = (\<lambda>obj. if obj ''orderId'' = None then ''{...}'' else ''{orderId,amount}''),
       json = (\<lambda>text. if text = ''{}'' then Some (JObj []) else None) \<rparr>"

text \<open>
  Three records of the caller: \<open>{amount: 0, description: 'Product purchase', cardSave: false}\<close>,
  \<open>{orderId: 'X', amount: 10.99}\<close> and
  \<open>{cardUuid: 'C', amount: 0.01, description: 'Subscription renewal', currency: 'USD'}\<close>.
\<close>

definition example_heap :: "addr \<Rightarrow> jsobject" where
  "example_heap =
     (\<lambda>a. Map.empty)
       (0 := [''amount'' \<mapsto> JNum 0, ''description'' \<mapsto> JStr ''Product purchase'',
              ''cardSave'' \<mapsto> JBool False],
        1 := [''orderId'' \<mapsto> JStr ''X'', ''amount'' \<mapsto> JNum 10.99],
        2 := [''cardUuid'' \<mapsto> JStr ''C'', ''amount'' \<mapsto> JNum 0.01,
              ''description'' \<mapsto> JStr ''Subscription renewal'',
              ''currency'' \<mapsto> JStr ''USD''])"

definition example_state :: "process_env \<Rightarrow> PayriffConfig \<Rightarrow> state" where
  "example_state env config =
     \<lparr> this = constructor env config, heap = example_heap, next_addr = 3, sent = [] \<rparr>"

text \<open>
  A store whose only object is the record \<open>{amount: 1, description: 'd', language: undefined}\<close>,
  which the type \<open>CreateOrderRequest\<close> admits (\<open>language?: Language\<close>), as a caller
  that forwards an optional value of its own writes it.
\<close>

definition undefined_language_state :: state where
  "undefined_language_state =
     \<lparr> this = constructor example_env example_config,
       heap = (\<lambda>a. Map.empty)
                (0 := [''amount'' \<mapsto> JNum 1, ''description'' \<mapsto> JStr ''d'',
                       ''language'' \<mapsto> JUndefined]),
       next_addr = 1,
       sent = [] \<rparr>"

section \<open>What one call does to the store\<close>

lemma makeRequest_state:
  "snd (makeRequest h endpoint method body s) =
     s\<lparr> sent := sent s @
        [\<lparr> req_url = baseUrl (this s) @ endpoint, req_method = method,
           req_headers = headers (this s),
           req_body = (case body of
                         None \<Rightarrow> None
                       | Some b \<Rightarrow> Some (JSON_stringify h (heap s b))) \<rparr>] \<rparr>"
  by (simp add: makeRequest_def Let_def split: fetch_outcome.split option.split)

lemma makeRequest_promise:
  "fst (makeRequest h endpoint method body s) =
     (case fetch h (last (sent (snd (makeRequest h endpoint method body s)))) of
        Failed e \<Rightarrow> Rejected (TransportFailure e)
      | Fulfilled response \<Rightarrow>
          (case json h (resp_body response) of
             None \<Rightarrow> Rejected SyntaxError
           | Some envelope \<Rightarrow> Resolved envelope))"
  by (simp add: makeRequest_def Let_def split: fetch_outcome.split option.split)

lemma createOrder_state:
  "snd (createOrder h request s) =
     s\<lparr> heap := (heap s)(next_addr s :=
                  spread
                    [''language'' \<mapsto> JStr (Language_value (defaultLanguage (this s))),
                     ''currency'' \<mapsto> JStr (Currency_value (defaultCurrency (this s))),
                     ''callbackUrl'' \<mapsto> JStr (defaultCallbackUrl (this s)),
                     ''cardSave'' \<mapsto> JBool False,
                     ''operation'' \<mapsto> JStr ''PURCHASE'']
                    (heap s request)),
        next_addr := Suc (next_addr s),
        sent := sent s @
          [\<lparr> req_url = baseUrl (this s) @ ''/orders'', req_method = POST,
             req_headers = headers (this s),
             req_body = Some (JSON_stringify h
               (spread
                    [''language'' \<mapsto> JStr (Language_value (defaultLanguage (this s))),
                     ''currency'' \<mapsto> JStr (Currency_value (defaultCurrency (this s))),
                     ''callbackUrl'' \<mapsto> JStr (defaultCallbackUrl (this s)),
                     ''cardSave'' \<mapsto> JBool False,
                     ''operation'' \<mapsto> JStr ''PURCHASE'']
                    (heap s request))) \<rparr>] \<rparr>"
  by (simp add: createOrder_def new_object_def makeRequest_state)

lemma autoPay_state:
  "snd (autoPay h request s) =
     s\<lparr> heap := (heap s)(next_addr s :=
                  spread
                    [''currency'' \<mapsto> JStr (Currency_value (defaultCurrency (this s))),
                     ''callbackUrl'' \<mapsto> JStr (defaultCallbackUrl (this s)),
                     ''operation'' \<mapsto> JStr ''PURCHASE'']
                    (heap s request)),
        next_addr := Suc (next_addr s),
        sent := sent s @
          [\<lparr> req_url = baseUrl (this s) @ ''/autoPay'', req_method = POST,
             req_headers = headers (this s),
             req_body = Some (JSON_stringify h
               (spread
                    [''currency'' \<mapsto> JStr (Currency_value (defaultCurrency (this s))),
                     ''callbackUrl'' \<mapsto> JStr (defaultCallbackUrl (this s)),
                     ''operation'' \<mapsto> JStr ''PURCHASE'']
                    (heap s request))) \<rparr>] \<rparr>"
  by (simp add: autoPay_def new_object_def makeRequest_state)

text \<open>
  A key that the caller's record has with the value \<open>undefined\<close> is a key the caller
  supplies: the spread copies it, and the body has \<open>undefined\<close> there, not the default.
\<close>

lemma createOrder_explicit_undefined:
  "heap s request k = Some JUndefined \<Longrightarrow>
     heap (snd (createOrder h request s)) (next_addr s) k = Some JUndefined"
  by (simp add: createOrder_state spread_def)

lemma createOrder_promise:
  "fst (createOrder h request s) =
     (case fetch h (last (sent (snd (createOrder h request s)))) of
        Failed e \<Rightarrow> Rejected (TransportFailure e)
      | Fulfilled response \<Rightarrow>
          (case json h (resp_body response) of
             None \<Rightarrow> Rejected SyntaxError
           | Some envelope \<Rightarrow> Resolved envelope))"
  by (simp add: createOrder_def new_object_def makeRequest_promise)

lemma autoPay_promise:
  "fst (autoPay h request s) =
     (case fetch h (last (sent (snd (autoPay h request s)))) of
        Failed e \<Rightarrow> Rejected (TransportFailure e)
      | Fulfilled response \<Rightarrow>
          (case json h (resp_body response) of
             None \<Rightarrow> Rejected SyntaxError
           | Some envelope \<Rightarrow> Resolved envelope))"
  by (simp add: autoPay_def new_object_def makeRequest_promise)

text \<open>
  Every call leaves the instance and the allocated objects as they were, allocates one
  object when it backfills defaults, and calls \<open>fetch\<close> once with the instance's headers
  (\<open>isSuccessful\<close>: not at all).
\<close>

lemma invoke_frame:
  "this (snd (invoke h c s)) = this s
   \<and> (\<forall>a. a < next_addr s \<longrightarrow> heap (snd (invoke h c s)) a = heap s a)
   \<and> next_addr (snd (invoke h c s)) =
       (case c of
          CreateOrder request \<Rightarrow> Suc (next_addr s)
        | AutoPay request \<Rightarrow> Suc (next_addr s)
        | _ \<Rightarrow> next_addr s)"
  by (cases c)
     (simp_all add: split_beta createOrder_state autoPay_state getOrderInfo_def
        refund_def complete_def makeRequest_state)

lemma invoke_sent:
  "\<exists>qs. sent (snd (invoke h c s)) = sent s @ qs
      \<and> (\<forall>q\<in>set qs. req_headers q = headers (this s))
      \<and> length qs = (case c of IsSuccessful code \<Rightarrow> 0 | _ \<Rightarrow> 1)"
  by (cases c)
     (simp_all add: split_beta createOrder_state autoPay_state getOrderInfo_def
        refund_def complete_def makeRequest_state)

lemma invoke_settles:
  assumes "sent (snd (invoke h c s)) = sent s @ [q]"
  shows "fst (invoke h c s) =
     Settled (case fetch h q of
        Failed e \<Rightarrow> Rejected (TransportFailure e)
      | Fulfilled response \<Rightarrow>
          (case json h (resp_body response) of
             None \<Rightarrow> Rejected SyntaxError
           | Some envelope \<Rightarrow> Resolved envelope))"
proof -
  have q: "q = last (sent (snd (invoke h c s)))"
    using assms by simp
  show ?thesis
  proof (cases c)
    case (CreateOrder request)
    with q show ?thesis by (simp add: split_beta createOrder_promise)
  next
    case (GetOrderInfo orderId)
    with q show ?thesis by (simp add: split_beta getOrderInfo_def makeRequest_promise)
  next
    case (Refund request)
    with q show ?thesis by (simp add: split_beta refund_def makeRequest_promise)
  next
    case (Complete request)
    with q show ?thesis by (simp add: split_beta complete_def makeRequest_promise)
  next
    case (AutoPay request)
    with q show ?thesis by (simp add: split_beta autoPay_promise)
  next
    case (IsSuccessful code)
    with assms show ?thesis by simp
  qed
qed

lemma constructor_Authorization:
  "map_of (headers (constructor env config)) ''Authorization'' =
     Some (or_string (cfg_secretKey config) (or_string (PAYRIFF_SECRET_KEY env) []))"
  by (simp add: constructor_def Let_def DEFAULT_SECRET_KEY_def)

subsection \<open>The concrete inputs, evaluated\<close>

lemma example_this:
  "this (example_state example_env example_config) =
     \<lparr> baseUrl = ''https://api.payriff.com/api/v3'',
       headers = [(''Authorization'', ''S''), (''Content-Type'', ''application/json'')],
       secretKey = ''S'', defaultLanguage = AZ, defaultCurrency = AZN,
       defaultCallbackUrl = ''https://example.com/webhook'' \<rparr>"
  by (simp add: example_state_def constructor_def example_env_def example_config_def
        or_string_def or_literal_def DEFAULT_BASE_URL_def DEFAULT_SECRET_KEY_def Let_def
        DEFAULT_LANGUAGE_def DEFAULT_CURRENCY_def DEFAULT_CALLBACK_URL_def)

lemma example_store:
  "heap (example_state env config) = example_heap"
  "next_addr (example_state env config) = 3"
  "sent (example_state env config) = []"
  by (simp_all add: example_state_def)

section \<open>Order creation\<close>

text \<open>
  C1, as amended. \<open>createOrder\<close> sends one POST to \<open>/orders\<close> whose body is the
  serialisation of a new object, the caller's record merged over the defaults. Every key
  that the caller's record has keeps the caller's value, whatever the value is: \<open>0\<close>,
  \<open>false\<close>, and also \<open>undefined\<close>. Each of \<open>language\<close>, \<open>currency\<close>,
  \<open>callbackUrl\<close>, \<open>cardSave\<close> and \<open>operation\<close> that is absent from the record gets
  the configured default (\<open>cardSave\<close>: false, \<open>operation\<close>: PURCHASE). No other key is
  touched. So only absent keys are defaulted; a key that is present with the value
  \<open>undefined\<close> is not.
\<close>

theorem createOrder_defaults:
  assumes "createOrder h request s = (p, s')"
  shows "let body = heap s' (next_addr s) in
      sent s' = sent s @
        [\<lparr> req_url = baseUrl (this s) @ ''/orders'', req_method = POST,
           req_headers = headers (this s), req_body = Some (JSON_stringify h body) \<rparr>]
    \<and> (\<forall>k v. heap s request k = Some v \<longrightarrow> body k = Some v)
    \<and> (\<forall>k. heap s request k = Some JUndefined \<longrightarrow> body k = Some JUndefined)
    \<and> (heap s request ''language'' = None \<longrightarrow>
         body ''language'' = Some (JStr (Language_value (defaultLanguage (this s)))))
    \<and> (heap s request ''currency'' = None \<longrightarrow>
         body ''currency'' = Some (JStr (Currency_value (defaultCurrency (this s)))))
    \<and> (heap s request ''callbackUrl'' = None \<longrightarrow>
         body ''callbackUrl'' = Some (JStr (defaultCallbackUrl (this s))))
    \<and> (heap s request ''cardSave'' = None \<longrightarrow> body ''cardSave'' = Some (JBool False))
    \<and> (heap s request ''operation'' = None \<longrightarrow> body ''operation'' = Some (JStr ''PURCHASE''))
    \<and> (\<forall>k. k \<notin> {''language'', ''currency'', ''callbackUrl'', ''cardSave'', ''operation''} \<longrightarrow>
           body k = heap s request k)"
proof -
  have s': "s' = snd (createOrder h request s)"
    using assms by simp
  show ?thesis
    unfolding s' createOrder_state Let_def spread_def
    by (auto simp: map_add_def split: option.split)
qed

theorem createOrder_defaults_witness:
  "fst (createOrder example_host 0 (example_state example_env example_config)) = Resolved (JObj [])
   \<and> heap (snd (createOrder example_host 0 (example_state example_env example_config))) 3 ''amount''
       = Some (JNum 0)
   \<and> heap (snd (createOrder example_host 0 (example_state example_env example_config))) 3 ''cardSave''
       = Some (JBool False)
   \<and> heap (snd (createOrder example_host 0 (example_state example_env example_config))) 3 ''language''
       = Some (JStr ''AZ'')
   \<and> heap (snd (createOrder example_host 0 (example_state example_env example_config))) 3 ''operation''
       = Some (JStr ''PURCHASE'')
   \<and> heap (snd (createOrder example_host 0 (example_state example_env example_config))) 3 ''orderId''
       = None"
proof -
  let ?s = "example_state example_env example_config"
  obtain p s' where run: "createOrder example_host 0 ?s = (p, s')"
    by (cases "createOrder example_host 0 ?s")
  have req: "heap ?s 0 ''amount'' = Some (JNum 0)" "heap ?s 0 ''cardSave'' = Some (JBool False)"
    "heap ?s 0 ''language'' = None" "heap ?s 0 ''operation'' = None" "heap ?s 0 ''orderId'' = None"
    by (simp_all add: example_store example_heap_def)
  have p: "p = Resolved (JObj [])"
    using run
    by (simp add: createOrder_def new_object_def makeRequest_def example_host_def split_beta)
  from createOrder_defaults [OF run] req
  have "heap s' 3 ''amount'' = Some (JNum 0)" "heap s' 3 ''cardSave'' = Some (JBool False)"
    "heap s' 3 ''language'' = Some (JStr ''AZ'')" "heap s' 3 ''operation'' = Some (JStr ''PURCHASE'')"
    "heap s' 3 ''orderId'' = None"
    by (simp_all add: Let_def example_store example_this)
  with run p show ?thesis by simp
qed

text \<open>
  C1 as it is worded puts the keys whose value is \<open>undefined\<close> among the defaulted ones.
  For the record \<open>{amount: 1, description: 'd', language: undefined}\<close> on a client whose
  default language is AZ, the body has \<open>language: undefined\<close>, not \<open>language: 'AZ'\<close>.
\<close>

theorem createOrder_undefined_not_defaulted:
  "heap undefined_language_state 0 ''language'' = Some JUndefined
   \<and> defaultLanguage (this undefined_language_state) = AZ
   \<and> heap (snd (createOrder example_host 0 undefined_language_state))
        (next_addr undefined_language_state) ''language'' = Some JUndefined
   \<and> heap (snd (createOrder example_host 0 undefined_language_state))
        (next_addr undefined_language_state) ''language''
       \<noteq> Some (JStr (Language_value (defaultLanguage (this undefined_language_state))))"
  by (simp add: createOrder_state spread_def undefined_language_state_def constructor_def
        Let_def or_literal_def example_config_def DEFAULT_LANGUAGE_def)

section \<open>Automatic payment\<close>

text \<open>
  C3. \<open>autoPay\<close> sends one POST to \<open>/autoPay\<close> whose body is the serialisation of a new
  object in which every key of the caller's record keeps the caller's value, and
  \<open>currency\<close>, \<open>callbackUrl\<close> and \<open>operation\<close> get the configured default currency, the
  configured default callback URL and PURCHASE where the record lacks them. No other key
  is added: a record without \<open>language\<close> gives a body without \<open>language\<close>.
\<close>

theorem autoPay_defaults:
  assumes "autoPay h request s = (p, s')"
  shows "let body = heap s' (next_addr s) in
      sent s' = sent s @
        [\<lparr> req_url = baseUrl (this s) @ ''/autoPay'', req_method = POST,
           req_headers = headers (this s), req_body = Some (JSON_stringify h body) \<rparr>]
    \<and> (\<forall>k v. heap s request k = Some v \<longrightarrow> body k = Some v)
    \<and> (heap s request ''currency'' = None \<longrightarrow>
         body ''currency'' = Some (JStr (Currency_value (defaultCurrency (this s)))))
    \<and> (heap s request ''callbackUrl'' = None \<longrightarrow>
         body ''callbackUrl'' = Some (JStr (defaultCallbackUrl (this s))))
    \<and> (heap s request ''operation'' = None \<longrightarrow> body ''operation'' = Some (JStr ''PURCHASE''))
    \<and> (\<forall>k. k \<notin> {''currency'', ''callbackUrl'', ''operation''} \<longrightarrow> body k = heap s request k)
    \<and> (heap s request ''language'' = None \<longrightarrow> body ''language'' = None)"
proof -
  have s': "s' = snd (autoPay h request s)"
    using assms by simp
  show ?thesis
    unfolding s' autoPay_state Let_def spread_def
    by (auto simp: map_add_def split: option.split)
qed

theorem autoPay_defaults_witness:
  "heap (snd (autoPay example_host 2 (example_state example_env example_config))) 3 ''currency''
       = Some (JStr ''USD'')
   \<and> heap (snd (autoPay example_host 2 (example_state example_env example_config))) 3 ''callbackUrl''
       = Some (JStr ''https://example.com/webhook'')
   \<and> heap (snd (autoPay example_host 2 (example_state example_env example_config))) 3 ''operation''
       = Some (JStr ''PURCHASE'')
   \<and> heap (snd (autoPay example_host 2 (example_state example_env example_config))) 3 ''language''
       = None
   \<and> map req_url (sent (snd (autoPay example_host 2 (example_state example_env example_config))))
       = [''https://api.payriff.com/api/v3/autoPay'']"
proof -
  let ?s = "example_state example_env example_config"
  obtain p s' where run: "autoPay example_host 2 ?s = (p, s')"
    by (cases "autoPay example_host 2 ?s")
  have req: "heap ?s 2 ''currency'' = Some (JStr ''USD'')" "heap ?s 2 ''callbackUrl'' = None"
    "heap ?s 2 ''operation'' = None" "heap ?s 2 ''language'' = None"
    by (simp_all add: example_store example_heap_def)
  from autoPay_defaults [OF run] req
  have "heap s' 3 ''currency'' = Some (JStr ''USD'')"
    "heap s' 3 ''callbackUrl'' = Some (JStr ''https://example.com/webhook'')"
    "heap s' 3 ''operation'' = Some (JStr ''PURCHASE'')"
    "heap s' 3 ''language'' = None"
    "map req_url (sent s') = [''https://api.payriff.com/api/v3/autoPay'']"
    by (simp_all add: Let_def example_store example_this)
  with run show ?thesis by simp
qed

section \<open>Order lookup, refund and completion\<close>

text \<open>
  C5. \<open>getOrderInfo X\<close> calls \<open>fetch\<close> exactly once, with the method GET, the URL that is
  the configured base URL followed by \<open>/orders/\<close> and \<open>X\<close>, and no body.
\<close>

theorem getOrderInfo_request:
  "sent (snd (getOrderInfo h orderId s)) = sent s @
     [\<lparr> req_url = baseUrl (this s) @ ''/orders/'' @ orderId, req_method = GET,
        req_headers = headers (this s), req_body = None \<rparr>]"
  by (simp add: getOrderInfo_def makeRequest_state)

text \<open>
  C6. \<open>refund\<close> sends one POST to \<open>/refund\<close> whose body is the serialisation of the
  caller's record itself: no object is allocated and no object is changed, so nothing
  is defaulted or added. \<open>complete\<close> does the same against \<open>/complete\<close>.
\<close>

theorem refund_complete_request:
  "sent (snd (refund h request s)) = sent s @
     [\<lparr> req_url = baseUrl (this s) @ ''/refund'', req_method = POST,
        req_headers = headers (this s),
        req_body = Some (JSON_stringify h (heap s request)) \<rparr>]
   \<and> sent (snd (complete h request s)) = sent s @
     [\<lparr> req_url = baseUrl (this s) @ ''/complete'', req_method = POST,
        req_headers = headers (this s),
        req_body = Some (JSON_stringify h (heap s request)) \<rparr>]
   \<and> heap (snd (refund h request s)) = heap s
   \<and> heap (snd (complete h request s)) = heap s
   \<and> next_addr (snd (refund h request s)) = next_addr s
   \<and> next_addr (snd (complete h request s)) = next_addr s"
  by (simp add: refund_def complete_def makeRequest_state)

section \<open>Authorization\<close>

text \<open>
  C4. On a client constructed from a configuration, every call to \<open>fetch\<close> that one of
  the six operations makes (one for each of the five that reach the network, none for
  \<open>isSuccessful\<close>) has the Authorization header \<open>S\<close> when the configuration gives the
  non-empty secret key \<open>S\<close>, and the empty string when neither the configuration nor the
  environment gives a secret key. Construction has no failing branch.
\<close>

theorem authorization_header:
  assumes "this s = constructor env config"
    and "invoke h c s = (res, s')"
  shows "\<exists>qs. sent s' = sent s @ qs
     \<and> length qs = (case c of IsSuccessful code \<Rightarrow> 0 | _ \<Rightarrow> 1)
     \<and> (\<forall>q\<in>set qs.
          (\<forall>S. cfg_secretKey config = Some S \<and> S \<noteq> [] \<longrightarrow>
             map_of (req_headers q) ''Authorization'' = Some S)
        \<and> (cfg_secretKey config = None \<and> PAYRIFF_SECRET_KEY env = None \<longrightarrow>
             map_of (req_headers q) ''Authorization'' = Some []))"
proof -
  from invoke_sent [of h c s] obtain qs where
    qs: "sent (snd (invoke h c s)) = sent s @ qs"
      "\<forall>q\<in>set qs. req_headers q = headers (this s)"
      "length qs = (case c of IsSuccessful code \<Rightarrow> 0 | _ \<Rightarrow> 1)"
    by blast
  have "\<forall>q\<in>set qs.
          (\<forall>S. cfg_secretKey config = Some S \<and> S \<noteq> [] \<longrightarrow>
             map_of (req_headers q) ''Authorization'' = Some S)
        \<and> (cfg_secretKey config = None \<and> PAYRIFF_SECRET_KEY env = None \<longrightarrow>
             map_of (req_headers q) ''Authorization'' = Some [])"
    using qs(2) assms(1) by (simp add: constructor_Authorization or_string_def)
  with qs(1,3) assms(2) show ?thesis by auto
qed

theorem authorization_header_witness:
  "map (\<lambda>q. map_of (req_headers q) ''Authorization'')
     (sent (snd (invoke example_host (Refund 1) (example_state example_env example_config))))
     = [Some ''S'']
   \<and> map (\<lambda>q. map_of (req_headers q) ''Authorization'')
     (sent (snd (invoke example_host (GetOrderInfo ''X'') (example_state example_env empty_config))))
     = [Some []]"
proof -
  let ?s1 = "example_state example_env example_config"
  let ?s2 = "example_state example_env empty_config"
  have this1: "this ?s1 = constructor example_env example_config"
    and this2: "this ?s2 = constructor example_env empty_config"
    by (simp_all add: example_state_def)
  have key1: "cfg_secretKey example_config = Some ''S''" "''S'' \<noteq> []"
    by (simp_all add: example_config_def)
  have key2: "cfg_secretKey empty_config = None" "PAYRIFF_SECRET_KEY example_env = None"
    by (simp_all add: empty_config_def example_env_def)
  obtain r1 t1 where run1: "invoke example_host (Refund 1) ?s1 = (r1, t1)"
    by (cases "invoke example_host (Refund 1) ?s1")
  obtain r2 t2 where run2: "invoke example_host (GetOrderInfo ''X'') ?s2 = (r2, t2)"
    by (cases "invoke example_host (GetOrderInfo ''X'') ?s2")
  from authorization_header [OF this1 run1] key1
  obtain q1 where "sent t1 = [q1]" "map_of (req_headers q1) ''Authorization'' = Some ''S''"
    by (auto simp: example_store length_Suc_conv)
  moreover
  from authorization_header [OF this2 run2] key2
  obtain q2 where "sent t2 = [q2]" "map_of (req_headers q2) ''Authorization'' = Some []"
    by (auto simp: example_store length_Suc_conv)
  ultimately show ?thesis
    using run1 run2 by simp
qed

section \<open>Responses\<close>

text \<open>
  C7. When the transport delivers a response to the request that an operation sends and
  the body of the response parses as JSON, the operation's promise resolves with the
  parsed value. The status of the response is any number and the parsed value is any
  value: neither is looked at.
\<close>

theorem status_not_inspected:
  assumes "invoke h c s = (res, s')"
    and "sent s' = sent s @ [q]"
    and "fetch h q = Fulfilled \<lparr> resp_status = status, resp_body = text \<rparr>"
    and "json h text = Some envelope"
  shows "res = Settled (Resolved envelope)"
  using invoke_settles [of h c s q] assms by simp

theorem status_not_inspected_witness:
  "fst (invoke example_host (CreateOrder 0) (example_state example_env example_config))
     = Settled (Resolved (JObj []))
   \<and> fetch example_host
       (last (sent (snd (invoke example_host (CreateOrder 0) (example_state example_env example_config)))))
     = Fulfilled \<lparr> resp_status = 500, resp_body = ''{}'' \<rparr>"
proof -
  let ?s = "example_state example_env example_config"
  let ?r = "invoke example_host (CreateOrder 0) ?s"
  let ?q = "last (sent (snd ?r))"
  have run: "?r = (fst ?r, snd ?r)"
    by simp
  have one: "sent (snd ?r) = sent ?s @ [?q]"
    by (simp add: split_beta createOrder_state)
  have got: "fetch example_host ?q = Fulfilled \<lparr> resp_status = 500, resp_body = ''{}'' \<rparr>"
    by (simp add: split_beta createOrder_state example_host_def)
  have parsed: "json example_host ''{}'' = Some (JObj [])"
    by (simp add: example_host_def)
  from status_not_inspected [OF run one got parsed] got show ?thesis
    by simp
qed

text \<open>
  C8. When the body of the response that the transport delivers is not valid JSON, the
  operation's promise rejects: no envelope is returned.
\<close>

theorem invalid_json_rejects:
  assumes "invoke h c s = (res, s')"
    and "sent s' = sent s @ [q]"
    and "fetch h q = Fulfilled \<lparr> resp_status = status, resp_body = text \<rparr>"
    and "json h text = None"
  shows "res = Settled (Rejected SyntaxError)"
  using invoke_settles [of h c s q] assms by simp

theorem invalid_json_rejects_witness:
  "fst (invoke example_host (GetOrderInfo ''X'') (example_state example_env example_config))
     = Settled (Rejected SyntaxError)
   \<and> json example_host ''Not Found'' = None"
proof -
  let ?s = "example_state example_env example_config"
  let ?r = "invoke example_host (GetOrderInfo ''X'') ?s"
  let ?q = "last (sent (snd ?r))"
  have run: "?r = (fst ?r, snd ?r)"
    by simp
  have one: "sent (snd ?r) = sent ?s @ [?q]"
    by (simp add: split_beta getOrderInfo_def makeRequest_state)
  have got: "fetch example_host ?q = Fulfilled \<lparr> resp_status = 404, resp_body = ''Not Found'' \<rparr>"
    by (simp add: split_beta getOrderInfo_def makeRequest_state example_host_def)
  have bad: "json example_host ''Not Found'' = None"
    by (simp add: example_host_def)
  from invalid_json_rejects [OF run one got bad] bad show ?thesis
    by simp
qed

section \<open>Frame\<close>

text \<open>
  C9. No operation changes an object that exists when it is called, the caller's request
  record among them, and no operation changes a field of the client instance. The two
  operations that backfill defaults allocate one new object; the others allocate none.
\<close>

theorem no_mutation:
  assumes "invoke h c s = (res, s')"
  shows "this s' = this s
    \<and> (\<forall>a. a < next_addr s \<longrightarrow> heap s' a = heap s a)
    \<and> next_addr s' =
        (case c of
           CreateOrder request \<Rightarrow> Suc (next_addr s)
         | AutoPay request \<Rightarrow> Suc (next_addr s)
         | _ \<Rightarrow> next_addr s)"
  using invoke_frame [of h c s] assms by simp

theorem no_mutation_witness:
  "heap (snd (invoke example_host (CreateOrder 0) (example_state example_env example_config))) 0
     = example_heap 0
   \<and> this (snd (invoke example_host (CreateOrder 0) (example_state example_env example_config)))
     = this (example_state example_env example_config)
   \<and> next_addr (snd (invoke example_host (CreateOrder 0) (example_state example_env example_config)))
     = 4"
proof -
  let ?s = "example_state example_env example_config"
  obtain r s' where run: "invoke example_host (CreateOrder 0) ?s = (r, s')"
    by (cases "invoke example_host (CreateOrder 0) ?s")
  have "(0::nat) < next_addr ?s"
    by (simp add: example_store)
  with no_mutation [OF run] have "heap s' 0 = heap ?s 0" "this s' = this ?s" "next_addr s' = 4"
    by (simp_all add: example_store)
  with run show ?thesis
    by (simp add: example_store)
qed

section \<open>Falsy configuration values\<close>

text \<open>
  C10. A configuration whose \<open>secretKey\<close> is the empty string constructs the same client
  as one without \<open>secretKey\<close>: the key is the environment's (the empty string when the
  variable is unset). A configuration whose \<open>baseUrl\<close> is the empty string constructs
  the same client as one without \<open>baseUrl\<close>: the base URL is the vendor endpoint. The
  same holds for \<open>defaultCallbackUrl\<close>.
\<close>

theorem empty_string_config_is_absent:
  "constructor env (config\<lparr> cfg_secretKey := Some [] \<rparr>)
     = constructor env (config\<lparr> cfg_secretKey := None \<rparr>)
   \<and> secretKey (constructor env (config\<lparr> cfg_secretKey := Some [] \<rparr>)) = DEFAULT_SECRET_KEY env
   \<and> DEFAULT_SECRET_KEY env = (case PAYRIFF_SECRET_KEY env of None \<Rightarrow> [] | Some k \<Rightarrow> k)
   \<and> constructor env (config\<lparr> cfg_baseUrl := Some [] \<rparr>)
     = constructor env (config\<lparr> cfg_baseUrl := None \<rparr>)
   \<and> baseUrl (constructor env (config\<lparr> cfg_baseUrl := Some [] \<rparr>))
     = ''https://api.payriff.com/api/v3''
   \<and> constructor env (config\<lparr> cfg_defaultCallbackUrl := Some [] \<rparr>)
     = constructor env (config\<lparr> cfg_defaultCallbackUrl := None \<rparr>)"
  by (simp add: constructor_def Let_def or_string_def DEFAULT_SECRET_KEY_def DEFAULT_BASE_URL_def
        split: option.split)

section \<open>The success test\<close>

text \<open>
  C2. \<open>isSuccessful code\<close> is true if and only if \<open>code\<close> is \<open>"00000"\<close> or \<open>"00"\<close>, the
  table's SUCCESS and SUCCESS_GATEWAY; it is false for the empty string, for \<open>"15400"\<close>
  and for every other string.
\<close>

theorem isSuccessful_iff:
  "isSuccessful code = (code \<in> {ResultCodes SUCCESS, ResultCodes SUCCESS_GATEWAY})
   \<and> isSuccessful ''00000'' \<and> isSuccessful ''00''
   \<and> \<not> isSuccessful [] \<and> \<not> isSuccessful ''15400''"
  by (auto simp: isSuccessful_def)

end
